theory Spec2Isabelle
  imports Complex_Main "HOL-Library.Word"
begin

unbundle bit_operations_syntax

section \<open>The two-wire bus, seen from the driver\<close>

text \<open>
  The driver of \<^verbatim>\<open>PCA9685.cpp\<close> talks to the chip only through a \<^verbatim>\<open>TwoWire\<close> object and
  through \<^verbatim>\<open>delay\<close>. A run of the driver is the list of the calls it makes, in order, each
  with the value the transport gave back where the driver looks at it.
  \<^verbatim>\<open>TwoWire::write\<close> puts one byte on the bus: its integer overloads convert the argument to
  \<^verbatim>\<open>uint8_t\<close>, so \<open>Write\<close> carries the byte.
\<close>

type_synonym uint8_t = "8 word"
type_synonym uint16_t = "16 word"

datatype event =
    BeginTransmission uint8_t
  | Write uint8_t
  | EndTransmission bool uint8_t
  | RequestFrom uint8_t uint8_t
  | Available int
  | Read int
  | Delay nat

text \<open>
  \<open>EndTransmission sendStop status\<close>, \<open>Available n\<close> and \<open>Read r\<close> record what the transport
  returned. The transport is not part of the repository: it is any function from the calls
  made so far to its next answer.
\<close>

record TwoWire =
  endTransmission :: "event list \<Rightarrow> uint8_t"
  available :: "event list \<Rightarrow> int"
  read :: "event list \<Rightarrow> int"

text \<open>The members of the class: \<^verbatim>\<open>_i2caddr\<close> and \<^verbatim>\<open>_i2cBus\<close>.\<close>

record PCA9685 =
  i2caddr :: uint8_t
  i2cBus :: TwoWire

text \<open>
  The register addresses are macros of \<^verbatim>\<open>PCA9685.h\<close>, which is not among the sources: they
  are parameters of the model.
\<close>

record regmap =
  PCA9685_MODE1 :: uint8_t
  PCA9685_PRESCALE :: uint8_t
  LED0_ON_L :: uint8_t

section \<open>The register primitives\<close>

definition write8 :: "PCA9685 \<Rightarrow> uint8_t \<Rightarrow> uint8_t \<Rightarrow> event list \<Rightarrow> bool \<times> event list" where
  "write8 this addr d h =
     (let h1 = h @ [BeginTransmission (i2caddr this)];
          h2 = h1 @ [Write addr];
          h3 = h2 @ [Write d];
          st = endTransmission (i2cBus this) h3
      in (st = 0, h3 @ [EndTransmission True st]))"

text \<open>
  \<^verbatim>\<open>returnedValue\<close> is a pointer: \<open>None\<close> is the null pointer, \<open>Some v\<close> a location that holds
  \<open>v\<close>. The second component of the result is the location after the call.
\<close>

definition read8 ::
  "PCA9685 \<Rightarrow> uint8_t \<Rightarrow> uint8_t option \<Rightarrow> event list \<Rightarrow> bool \<times> uint8_t option \<times> event list" where
  "read8 this addr returnedValue h =
     (let h1 = h @ [BeginTransmission (i2caddr this)];
          h2 = h1 @ [Write addr];
          st = endTransmission (i2cBus this) h2;
          h3 = h2 @ [EndTransmission False st]
      in if st \<noteq> 0 then (False, returnedValue, h3)
         else
           let h4 = h3 @ [RequestFrom (i2caddr this) 1];
               n = available (i2cBus this) h4;
               h5 = h4 @ [Available n]
           in if n = 0 then (False, returnedValue, h5)
              else
                let r = read (i2cBus this) h5;
                    h6 = h5 @ [Read r];
                    readValue = (word_of_int r :: uint8_t)
                in (True, (case returnedValue of None \<Rightarrow> None | Some _ \<Rightarrow> Some readValue), h6))"

section \<open>The public operations\<close>

definition reset :: "regmap \<Rightarrow> PCA9685 \<Rightarrow> event list \<Rightarrow> bool \<times> event list" where
  "reset regs this h =
     (case write8 this (PCA9685_MODE1 regs) 0x80 h of
        (ok, h1) \<Rightarrow> if \<not> ok then (False, h1) else (True, h1 @ [Delay 10]))"

text \<open>
  \<^verbatim>\<open>LED0_ON_L+4*num\<close> is computed on \<^verbatim>\<open>int\<close> and converted to a byte by \<^verbatim>\<open>write\<close>; \<^verbatim>\<open>on>>8\<close>
  likewise.
\<close>

definition setPWM ::
  "regmap \<Rightarrow> PCA9685 \<Rightarrow> uint8_t \<Rightarrow> uint16_t \<Rightarrow> uint16_t \<Rightarrow> event list \<Rightarrow> bool \<times> event list" where
  "setPWM regs this num on off h =
     (let h1 = h @ [BeginTransmission (i2caddr this)];
          h2 = h1 @ [Write (word_of_int (uint (LED0_ON_L regs) + 4 * uint num))];
          h3 = h2 @ [Write (ucast on)];
          h4 = h3 @ [Write (ucast (drop_bit 8 on))];
          h5 = h4 @ [Write (ucast off)];
          h6 = h5 @ [Write (ucast (drop_bit 8 off))];
          st = endTransmission (i2cBus this) h6
      in (st = 0, h6 @ [EndTransmission True st]))"

definition setPin ::
  "regmap \<Rightarrow> PCA9685 \<Rightarrow> uint8_t \<Rightarrow> uint16_t \<Rightarrow> bool \<Rightarrow> event list \<Rightarrow> bool \<times> event list" where
  "setPin regs this num val0 invert h =
     (let val = min val0 4095;
          (on, off) =
            (if invert then
               (if val = 0 then (4096, 0)
                else if val = 4095 then (0, 4096)
                else (0, 4095 - val))
             else
               (if val = 4095 then (4096, 0)
                else if val = 0 then (0, 4096)
                else (0, val)))
      in setPWM regs this num on off h)"

text \<open>
  \<^verbatim>\<open>setPWMFreq\<close> computes the prescale value in floating point. A \<^verbatim>\<open>float\<close> or \<^verbatim>\<open>double\<close>
  value is a real number, and an operation of the target rounds the exact result into its
  format: \<open>to_float\<close> and \<open>to_double\<close> are these roundings (the same function where
  \<^verbatim>\<open>double\<close> is \<^verbatim>\<open>float\<close>, as on AVR).
\<close>

record fp_env =
  to_float :: "real \<Rightarrow> real"
  to_double :: "real \<Rightarrow> real"

text \<open>
  The value of the local \<^verbatim>\<open>prescale\<close>. Dividing by a zero \<^verbatim>\<open>freq\<close> gives an infinity, and
  converting a floating value outside \<open>0..255\<close> to \<^verbatim>\<open>uint8_t\<close> is undefined in C++: the
  result is \<open>None\<close> there.
\<close>

definition prescale :: "fp_env \<Rightarrow> real \<Rightarrow> uint8_t option" where
  "prescale fp freq0 =
     (let freq = to_float fp (to_double fp (freq0 * to_double fp (9 / 10)));
          p0 = to_float fp 25000000;
          p1 = to_float fp (p0 / 4096)
      in if freq = 0 then None
         else
           let p2 = to_float fp (p1 / freq);
               p3 = to_float fp (p2 - 1);
               fl = \<lfloor>to_double fp (p3 + 1 / 2)\<rfloor>
           in if 0 \<le> fl \<and> fl \<le> 255 then Some (word_of_int fl) else None)"

text \<open>
  \<open>None\<close> stands for the undefined conversion of the prescale value; otherwise the result is
  what \<^verbatim>\<open>setPWMFreq\<close> returns and the calls made so far.
\<close>

definition setPWMFreq ::
  "fp_env \<Rightarrow> regmap \<Rightarrow> PCA9685 \<Rightarrow> real \<Rightarrow> event list \<Rightarrow> (bool \<times> event list) option" where
  "setPWMFreq fp regs this freq h =
     (case prescale fp freq of
        None \<Rightarrow> None
      | Some p \<Rightarrow>
          Some
            (case read8 this (PCA9685_MODE1 regs) (Some 0) h of
               (ok0, cell, h0) \<Rightarrow>
                 if \<not> ok0 then (False, h0)
                 else
                   let oldmode = (case cell of None \<Rightarrow> 0 | Some v \<Rightarrow> v);
                       newmode = (oldmode AND 0x7F) OR 0x10
                   in case write8 this (PCA9685_MODE1 regs) newmode h0 of
                        (ok1, h1) \<Rightarrow>
                          if \<not> ok1 then (False, h1)
                          else
                            case write8 this (PCA9685_PRESCALE regs) p h1 of
                              (ok2, h2) \<Rightarrow>
                                if \<not> ok2 then (False, h2)
                                else
                                  case write8 this (PCA9685_MODE1 regs) oldmode h2 of
                                    (ok3, h3) \<Rightarrow>
                                      if \<not> ok3 then (False, h3)
                                      else
                                        case write8 this (PCA9685_MODE1 regs) (oldmode OR 0xA0)
                                               (h3 @ [Delay 5]) of
                                          (ok4, h4) \<Rightarrow>
                                            if \<not> ok4 then (False, h4) else (True, h4)))"

text \<open>
  \<^verbatim>\<open>begin\<close> of the source; the name is a keyword here, hence the prime. The result is \<open>None\<close>
  where \<^verbatim>\<open>setPWMFreq\<close> has none.
\<close>

definition begin' ::
  "fp_env \<Rightarrow> regmap \<Rightarrow> PCA9685 \<Rightarrow> event list \<Rightarrow> (bool \<times> event list) option" where
  "begin' fp regs this h =
     (case reset regs this h of
        (ok, h1) \<Rightarrow> if \<not> ok then Some (False, h1) else setPWMFreq fp regs this 1000 h1)"

section \<open>Concrete instances\<close>

text \<open>
  Used where a statement is evaluated: exact arithmetic as the rounding, the register
  addresses of the PCA9685 data sheet, a transport that gives the same answers to every
  call, and one that acknowledges until \<open>k\<close> calls have been made and never after.
\<close>

definition exact_fp :: fp_env where
  "exact_fp = \<lparr>to_float = (\<lambda>x. x), to_double = (\<lambda>x. x)\<rparr>"

definition datasheet_regs :: regmap where
  "datasheet_regs = \<lparr>PCA9685_MODE1 = 0x00, PCA9685_PRESCALE = 0xFE, LED0_ON_L = 0x06\<rparr>"

definition steady_bus :: "uint8_t \<Rightarrow> int \<Rightarrow> int \<Rightarrow> TwoWire" where
  "steady_bus st n r = \<lparr>endTransmission = (\<lambda>h. st), available = (\<lambda>h. n), read = (\<lambda>h. r)\<rparr>"

definition chip :: "TwoWire \<Rightarrow> PCA9685" where
  "chip bus = \<lparr>i2caddr = 0x40, i2cBus = bus\<rparr>"

definition flaky_bus :: "nat \<Rightarrow> TwoWire" where
  "flaky_bus k =
     \<lparr>endTransmission = (\<lambda>h. if length h < k then 0 else 2), available = (\<lambda>h. 1),
      read = (\<lambda>h. 0)\<rparr>"

section \<open>Properties of runs\<close>

text \<open>
  The calls whose answer makes \<^verbatim>\<open>write8\<close>, \<^verbatim>\<open>setPWM\<close> or \<^verbatim>\<open>read8\<close> return \<^verbatim>\<open>false\<close>: a
  transmission that ended with a nonzero status, and no byte available.
\<close>

fun failed :: "event \<Rightarrow> bool" where
  "failed (EndTransmission sendStop st) = (st \<noteq> 0)"
| "failed (Available n) = (n = 0)"
| "failed _ = False"

text \<open>No call follows a failed one.\<close>

fun stops_at_failure :: "event list \<Rightarrow> bool" where
  "stops_at_failure [] = True"
| "stops_at_failure (e # es) = (if failed e then es = [] else stops_at_failure es)"

text \<open>
  \<open>fail_stop h r\<close>: the operation that was started after the calls \<open>h\<close> and gave \<open>r\<close> only added
  calls, stopped at the first failed call, and returned \<^verbatim>\<open>false\<close> if there was one.
\<close>

definition fail_stop :: "event list \<Rightarrow> bool \<times> event list \<Rightarrow> bool" where
  "fail_stop h r =
     (case r of
        (ok, h') \<Rightarrow>
          take (length h) h' = h \<and> stops_at_failure (drop (length h) h') \<and>
          (list_ex failed (drop (length h) h') \<longrightarrow> \<not> ok))"

text \<open>
  A rounding is accurate when its relative error is at most \<open>1 / 2 ^ 23\<close> on the magnitudes
  between \<open>1 / 2\<close> and \<open>2 ^ 32\<close>, as the roundings of IEEE single and double precision are.
\<close>

definition fp_accurate :: "fp_env \<Rightarrow> bool" where
  "fp_accurate fp \<longleftrightarrow>
     (\<forall>x. 1 / 2 \<le> \<bar>x\<bar> \<and> \<bar>x\<bar> \<le> 2 ^ 32 \<longrightarrow>
        \<bar>to_float fp x - x\<bar> \<le> \<bar>x\<bar> / 2 ^ 23 \<and> \<bar>to_double fp x - x\<bar> \<le> \<bar>x\<bar> / 2 ^ 23)"

section \<open>Bytes and bits\<close>

lemma ucast_low_byte: "(ucast (x :: uint16_t) :: uint8_t) = of_nat (unat x mod 256)"
  by (simp add: word_unat_eq_iff unsigned_ucast_eq take_bit_eq_mod unat_of_nat)

lemma ucast_high_byte: "(ucast (drop_bit 8 (x :: uint16_t)) :: uint8_t) = of_nat (unat x div 256)"
proof -
  have "unat x < 65536"
    using unsigned_less [of x, where 'a = nat] by simp
  then have "unat x div 256 < 256"
    by simp
  then show ?thesis
    by (simp add: word_unat_eq_iff unsigned_ucast_eq unat_drop_bit_eq drop_bit_eq_div
        take_bit_eq_mod unat_div unat_of_nat)
qed

lemma channel_address:
  "(word_of_int (uint (a :: uint8_t) + 4 * uint (num :: uint8_t)) :: uint8_t) =
     of_nat ((unat a + 4 * unat num) mod 256)"
proof -
  have "(word_of_int (uint a + 4 * uint num) :: uint8_t) = of_nat (unat a + 4 * unat num)"
    by simp
  then show ?thesis
    by (simp only: word_unat_eq_iff unat_of_nat) simp
qed

lemma bit_0x10: "bit (0x10 :: int) n \<longleftrightarrow> n = 4"
  using bit_exp_iff [of 4 n, where 'a = int] by auto

lemma bit_0x7F: "bit (0x7F :: int) n \<longleftrightarrow> n < 7"
proof -
  have m: "(0x7F :: int) = mask 7"
    by (simp add: mask_eq_exp_minus_1)
  show ?thesis
    unfolding m by (simp add: bit_mask_iff)
qed

lemma newmode_bits:
  "bit (((old :: uint8_t) AND 0x7F) OR 0x10) n \<longleftrightarrow> n = 4 \<or> (n \<noteq> 7 \<and> bit old n)"
proof -
  have "bit old n \<Longrightarrow> n < 8"
    using bit_imp_le_length [of old n] by simp
  then show ?thesis
    by (auto simp add: bit_or_iff bit_and_iff bit_0x10 bit_0x7F)
qed

section \<open>The prescale value at 1000 Hz\<close>

lemma rounded_between:
  fixes f :: "real \<Rightarrow> real"
  assumes acc: "\<bar>f x - x\<bar> \<le> \<bar>x\<bar> / 2 ^ 23"
    and lo: "lo \<le> x" and hi: "x \<le> hi" and pos: "0 \<le> lo"
    and lo': "lo' \<le> lo - lo / 2 ^ 23" and hi': "hi + hi / 2 ^ 23 \<le> hi'"
  shows "lo' \<le> f x \<and> f x \<le> hi'"
proof -
  have x: "0 \<le> x"
    using lo pos by simp
  then have a: "\<bar>f x - x\<bar> \<le> x / 2 ^ 23"
    using acc by simp
  have "x - x / 2 ^ 23 \<le> f x" and "f x \<le> x + x / 2 ^ 23"
    using a by linarith+
  moreover have "lo - lo / 2 ^ 23 \<le> x - x / 2 ^ 23"
    using lo by simp
  moreover have "x + x / 2 ^ 23 \<le> hi + hi / 2 ^ 23"
    using hi by (simp add: divide_right_mono add_mono)
  ultimately show ?thesis
    using lo' hi' by linarith
qed

lemma float_between:
  assumes "fp_accurate fp" "lo \<le> x" "x \<le> hi" "1 / 2 \<le> lo" "hi \<le> 2 ^ 32"
    "lo' \<le> lo - lo / 2 ^ 23" "hi + hi / 2 ^ 23 \<le> hi'"
  shows "lo' \<le> to_float fp x \<and> to_float fp x \<le> hi'"
proof -
  have "1 / 2 \<le> \<bar>x\<bar> \<and> \<bar>x\<bar> \<le> 2 ^ 32"
    using assms(2-5) by simp
  then have "\<bar>to_float fp x - x\<bar> \<le> \<bar>x\<bar> / 2 ^ 23"
    using assms(1) by (simp add: fp_accurate_def)
  then show ?thesis
    using assms(2-4,6,7) by (intro rounded_between [where lo = lo and hi = hi]) simp_all
qed

lemma double_between:
  assumes "fp_accurate fp" "lo \<le> x" "x \<le> hi" "1 / 2 \<le> lo" "hi \<le> 2 ^ 32"
    "lo' \<le> lo - lo / 2 ^ 23" "hi + hi / 2 ^ 23 \<le> hi'"
  shows "lo' \<le> to_double fp x \<and> to_double fp x \<le> hi'"
proof -
  have "1 / 2 \<le> \<bar>x\<bar> \<and> \<bar>x\<bar> \<le> 2 ^ 32"
    using assms(2-5) by simp
  then have "\<bar>to_double fp x - x\<bar> \<le> \<bar>x\<bar> / 2 ^ 23"
    using assms(1) by (simp add: fp_accurate_def)
  then show ?thesis
    using assms(2-4,6,7) by (intro rounded_between [where lo = lo and hi = hi]) simp_all
qed

text \<open>
  Exactly, \<open>25000000 / 4096 / 900 - 1 + 1/2 = 6.28\<dots>\<close>; the six roundings on the way move it
  by far less than the distance to 6 and to 7.
\<close>

lemma prescale_1000:
  assumes acc: "fp_accurate fp"
  shows "prescale fp 1000 = Some 6"
proof -
  define c where "c = to_double fp (9 / 10)"
  define m where "m = to_double fp (1000 * c)"
  define freq where "freq = to_float fp m"
  define p0 where "p0 = to_float fp 25000000"
  define p1 where "p1 = to_float fp (p0 / 4096)"
  define p2 where "p2 = to_float fp (p1 / freq)"
  define p3 where "p3 = to_float fp (p2 - 1)"
  define s where "s = to_double fp (p3 + 1 / 2)"
  have c: "8999 / 10000 \<le> c \<and> c \<le> 9001 / 10000"
    unfolding c_def
    by (rule double_between [OF acc, where lo = "9 / 10" and hi = "9 / 10"]) simp_all
  then have "8999 / 10 \<le> 1000 * c" "1000 * c \<le> 9001 / 10"
    by simp_all
  then have m: "8998 / 10 \<le> m \<and> m \<le> 9002 / 10"
    unfolding m_def
    by (intro double_between [OF acc, where lo = "8999 / 10" and hi = "9001 / 10"]) simp_all
  then have freq: "899 \<le> freq \<and> freq \<le> 901"
    unfolding freq_def
    by (intro float_between [OF acc, where lo = "8998 / 10" and hi = "9002 / 10"]) simp_all
  have p0: "24999990 \<le> p0 \<and> p0 \<le> 25000010"
    unfolding p0_def
    by (rule float_between [OF acc, where lo = 25000000 and hi = 25000000]) simp_all
  then have "24999990 / 4096 \<le> p0 / 4096" "p0 / 4096 \<le> 25000010 / 4096"
    by simp_all
  then have p1: "6103 \<le> p1 \<and> p1 \<le> 6104"
    unfolding p1_def
    by (intro float_between [OF acc, where lo = "24999990 / 4096" and hi = "25000010 / 4096"])
      simp_all
  have "6103 / 901 \<le> p1 / freq"
    by (rule frac_le) (use p1 freq in auto)
  moreover have "p1 / freq \<le> 6104 / 899"
    by (rule frac_le) (use p1 freq in auto)
  ultimately have p2: "677 / 100 \<le> p2 \<and> p2 \<le> 679 / 100"
    unfolding p2_def
    by (intro float_between [OF acc, where lo = "6103 / 901" and hi = "6104 / 899"]) simp_all
  then have "577 / 100 \<le> p2 - 1" "p2 - 1 \<le> 579 / 100"
    by simp_all
  then have p3: "576 / 100 \<le> p3 \<and> p3 \<le> 580 / 100"
    unfolding p3_def
    by (intro float_between [OF acc, where lo = "577 / 100" and hi = "579 / 100"]) simp_all
  then have "626 / 100 \<le> p3 + 1 / 2" "p3 + 1 / 2 \<le> 630 / 100"
    by simp_all
  then have s: "6 \<le> s \<and> s < 7"
    using double_between [OF acc, where lo = "626 / 100" and hi = "630 / 100"
        and x = "p3 + 1 / 2" and lo' = 6 and hi' = "631 / 100"]
    unfolding s_def by simp
  then have fl: "\<lfloor>s\<rfloor> = 6"
    by (simp add: floor_eq_iff)
  have nz: "freq \<noteq> 0"
    using freq by auto
  have "prescale fp 1000 =
          (if freq = 0 then None
           else if 0 \<le> \<lfloor>s\<rfloor> \<and> \<lfloor>s\<rfloor> \<le> 255 then Some (word_of_int \<lfloor>s\<rfloor>) else None)"
    by (simp add: prescale_def Let_def c_def m_def freq_def p0_def p1_def p2_def p3_def s_def)
  also have "\<dots> = Some 6"
    using nz fl by simp
  finally show ?thesis .
qed

lemma exact_fp_accurate: "fp_accurate exact_fp"
  by (simp add: fp_accurate_def exact_fp_def)

lemma prescale_exact_1000: "prescale exact_fp 1000 = Some 6"
  by (rule prescale_1000 [OF exact_fp_accurate])

section \<open>The duty helper\<close>

text \<open>
  Claim C2. For every duty value in \<open>0..4095\<close> and \<^verbatim>\<open>invert = false\<close>, \<^verbatim>\<open>setPin\<close> calls
  \<^verbatim>\<open>setPWM\<close> with \<open>on = 0\<close> and \<open>off\<close> the duty value, except that 4095 gives \<open>on = 4096\<close>,
  \<open>off = 0\<close> and 0 gives \<open>on = 0\<close>, \<open>off = 4096\<close>.
\<close>

theorem setPin_plain:
  "val \<le> 4095 \<Longrightarrow>
   setPin regs this num val False h =
     setPWM regs this num (if val = 4095 then 4096 else 0)
       (if val = 4095 then 0 else if val = 0 then 4096 else val) h"
  by (simp add: setPin_def Let_def min_def)

theorem setPin_plain_witness:
  "(1000 :: uint16_t) \<le> 4095 \<and>
   setPin datasheet_regs (chip (steady_bus 0 1 0)) 3 1000 False [] =
     (True, [BeginTransmission 0x40, Write 18, Write 0, Write 0, Write 0xE8, Write 3,
             EndTransmission True 0])"
  using setPin_plain [of 1000 datasheet_regs "chip (steady_bus 0 1 0)" 3 "[]"]
  by (simp add: setPWM_def datasheet_regs_def chip_def steady_bus_def Let_def)

text \<open>
  Claim C3. For every duty value in \<open>0..4095\<close> and \<^verbatim>\<open>invert = true\<close>, \<^verbatim>\<open>setPin\<close> calls
  \<^verbatim>\<open>setPWM\<close> with \<open>on = 0\<close> and \<open>off\<close> 4095 minus the duty value, except that 0 gives
  \<open>on = 4096\<close>, \<open>off = 0\<close> and 4095 gives \<open>on = 0\<close>, \<open>off = 4096\<close>.
\<close>

theorem setPin_inverted:
  "val \<le> 4095 \<Longrightarrow>
   setPin regs this num val True h =
     setPWM regs this num (if val = 0 then 4096 else 0)
       (if val = 0 then 0 else if val = 4095 then 4096 else 4095 - val) h"
  by (simp add: setPin_def Let_def min_def)

theorem setPin_inverted_witness:
  "(1000 :: uint16_t) \<le> 4095 \<and>
   setPin datasheet_regs (chip (steady_bus 0 1 0)) 3 1000 True [] =
     (True, [BeginTransmission 0x40, Write 18, Write 0, Write 0, Write 0x17, Write 0x0C,
             EndTransmission True 0])"
  using setPin_inverted [of 1000 datasheet_regs "chip (steady_bus 0 1 0)" 3 "[]"]
  by (simp add: setPWM_def datasheet_regs_def chip_def steady_bus_def Let_def)

text \<open>
  Claim C4. For every duty value above 4095 and either \<^verbatim>\<open>invert\<close>, \<^verbatim>\<open>setPin\<close> does exactly
  what it does for the duty value 4095: the value is clamped, and the call is not refused.
\<close>

theorem setPin_clamps:
  "4095 < val \<Longrightarrow> setPin regs this num val invert h = setPin regs this num 4095 invert h"
  by (auto simp add: setPin_def Let_def min_def)

theorem setPin_clamps_witness:
  "(4095 :: uint16_t) < 65535 \<and>
   setPin datasheet_regs (chip (steady_bus 0 1 0)) 3 65535 False [] =
     setPin datasheet_regs (chip (steady_bus 0 1 0)) 3 4095 False [] \<and>
   setPin datasheet_regs (chip (steady_bus 0 1 0)) 3 65535 False [] =
     (True, [BeginTransmission 0x40, Write 18, Write 0, Write 0x10, Write 0, Write 0,
             EndTransmission True 0])"
  using setPin_clamps [of 65535 datasheet_regs "chip (steady_bus 0 1 0)" 3 False "[]"]
  by (simp add: setPin_def setPWM_def datasheet_regs_def chip_def steady_bus_def Let_def)

section \<open>The channel registers\<close>

text \<open>
  Claim C10. \<^verbatim>\<open>setPWM\<close> checks no range of the channel number: for every \<^verbatim>\<open>num\<close> in
  \<open>0..255\<close> it sends one transmission of five bytes, the first of them
  \<^verbatim>\<open>LED0_ON_L + 4 * num\<close> modulo 256, then the low and high bytes of \<^verbatim>\<open>on\<close> and of \<^verbatim>\<open>off\<close>,
  and returns whether the status of the transmission's end was 0.
\<close>

theorem setPWM_any_channel:
  "setPWM regs this num on off h =
     (let w = h @ [BeginTransmission (i2caddr this),
                   Write (of_nat ((unat (LED0_ON_L regs) + 4 * unat num) mod 256)),
                   Write (of_nat (unat on mod 256)), Write (of_nat (unat on div 256)),
                   Write (of_nat (unat off mod 256)), Write (of_nat (unat off div 256))];
          st = endTransmission (i2cBus this) w
      in (st = 0, w @ [EndTransmission True st]))"
proof -
  have "setPWM regs this num on off h =
     (let w = h @ [BeginTransmission (i2caddr this),
                   Write (of_nat ((unat (LED0_ON_L regs) + 4 * unat num) mod 256)),
                   Write (ucast on), Write (of_nat (unat on div 256)),
                   Write (ucast off), Write (of_nat (unat off div 256))];
          st = endTransmission (i2cBus this) w
      in (st = 0, w @ [EndTransmission True st]))"
    by (simp only: setPWM_def Let_def channel_address ucast_high_byte append_assoc append_Cons
        append_Nil)
  then show ?thesis
    by (simp only: ucast_low_byte)
qed

section \<open>The register primitives and the reset\<close>

text \<open>
  Claim C8. For every register address, when the transmission of the address succeeds and
  no byte is available after the request for one byte, \<^verbatim>\<open>read8\<close> returns \<^verbatim>\<open>false\<close> and the
  caller's location is as before; and whenever \<^verbatim>\<open>read8\<close> returns \<^verbatim>\<open>false\<close> the location is
  as before.
\<close>

theorem read8_no_data:
  "(endTransmission (i2cBus this) (h @ [BeginTransmission (i2caddr this), Write addr]) = 0 \<and>
    available (i2cBus this)
      (h @ [BeginTransmission (i2caddr this), Write addr, EndTransmission False 0,
            RequestFrom (i2caddr this) 1]) = 0 \<longrightarrow>
    read8 this addr out h =
      (False, out,
       h @ [BeginTransmission (i2caddr this), Write addr, EndTransmission False 0,
            RequestFrom (i2caddr this) 1, Available 0])) \<and>
   (\<not> fst (read8 this addr out h) \<longrightarrow> fst (snd (read8 this addr out h)) = out)"
  by (simp add: read8_def Let_def)

theorem read8_no_data_witness:
  "endTransmission (i2cBus (chip (steady_bus 0 0 0x55))) ([] @ [BeginTransmission 0x40, Write 0]) = 0 \<and>
   available (i2cBus (chip (steady_bus 0 0 0x55)))
     ([] @ [BeginTransmission 0x40, Write 0, EndTransmission False 0, RequestFrom 0x40 1]) = 0 \<and>
   read8 (chip (steady_bus 0 0 0x55)) 0 (Some 7) [] =
     (False, Some 7,
      [BeginTransmission 0x40, Write 0, EndTransmission False 0, RequestFrom 0x40 1,
       Available 0]) \<and>
   fst (snd (read8 (chip (steady_bus 0 0 0x55)) 0 (Some 7) [])) = Some 7"
  using read8_no_data [of "chip (steady_bus 0 0 0x55)" "[]" 0 "Some 7"]
  by (simp add: chip_def steady_bus_def)

text \<open>
  Claim C9. \<^verbatim>\<open>reset\<close> makes exactly one register write, of 0x80 to \<^verbatim>\<open>MODE1\<close>; when the
  write succeeds it waits 10 time units and returns \<^verbatim>\<open>true\<close>, and when the write fails it
  returns \<^verbatim>\<open>false\<close> and does not wait.
\<close>

theorem reset_trace:
  "reset regs this h =
     (let w = h @ [BeginTransmission (i2caddr this), Write (PCA9685_MODE1 regs), Write 0x80];
          st = endTransmission (i2cBus this) w
      in if st = 0 then (True, w @ [EndTransmission True st, Delay 10])
         else (False, w @ [EndTransmission True st]))"
  by (simp add: reset_def write8_def Let_def)

section \<open>Setting the frequency\<close>

lemmas run_defs =
  setPWMFreq_def read8_def write8_def Let_def chip_def steady_bus_def flaky_bus_def
  datasheet_regs_def

text \<open>
  A chip that reports \<^verbatim>\<open>MODE1 = 0x80\<close> (restart set): the write that puts it to sleep
  carries 0x10, whose bit 7 is not the bit 7 that was read.
\<close>

theorem sleep_write_counterexample:
  "setPWMFreq exact_fp datasheet_regs (chip (steady_bus 0 1 0x80)) 1000 [] =
     Some (True,
       [BeginTransmission 0x40, Write 0, EndTransmission False 0, RequestFrom 0x40 1,
        Available 1, Read 0x80,
        BeginTransmission 0x40, Write 0, Write 0x10, EndTransmission True 0,
        BeginTransmission 0x40, Write 0xFE, Write 6, EndTransmission True 0,
        BeginTransmission 0x40, Write 0, Write 0x80, EndTransmission True 0,
        Delay 5,
        BeginTransmission 0x40, Write 0, Write 0xA0, EndTransmission True 0]) \<and>
   bit (0x80 :: uint8_t) 7 \<and> \<not> bit (0x10 :: uint8_t) 7"
  by (simp add: run_defs prescale_exact_1000)

text \<open>
  Claim C1, as the code has it. In \<^verbatim>\<open>setPWMFreq\<close> the write that follows the read of the
  mode register goes to the mode register, and its value has the sleep bit (bit 4) set, the
  restart bit (bit 7) clear, and every other bit as it was read, for every value read.
\<close>

theorem sleep_write_value:
  assumes "read8 this (PCA9685_MODE1 regs) (Some 0) h = (True, Some old, h0)"
    and "setPWMFreq fp regs this freq h = Some (ok, h')"
  shows "take (length h0 + 3) h' =
           h0 @ [BeginTransmission (i2caddr this), Write (PCA9685_MODE1 regs),
                 Write ((old AND 0x7F) OR 0x10)] \<and>
         (\<forall>n. bit ((old AND 0x7F) OR 0x10) n \<longleftrightarrow> n = 4 \<or> (n \<noteq> 7 \<and> bit old n))"
proof -
  have "take (length h0 + 3) h' =
          h0 @ [BeginTransmission (i2caddr this), Write (PCA9685_MODE1 regs),
                Write ((old AND 0x7F) OR 0x10)]"
    using assms
    by (auto simp add: setPWMFreq_def write8_def Let_def split: option.splits if_splits)
  then show ?thesis
    by (simp add: newmode_bits)
qed

theorem sleep_write_value_witness:
  "read8 (chip (steady_bus 0 1 0xE5)) (PCA9685_MODE1 datasheet_regs) (Some 0) [] =
     (True, Some 0xE5,
      [BeginTransmission 0x40, Write 0, EndTransmission False 0, RequestFrom 0x40 1,
       Available 1, Read 0xE5]) \<and>
   setPWMFreq exact_fp datasheet_regs (chip (steady_bus 0 1 0xE5)) 1000 [] =
     Some (True,
       [BeginTransmission 0x40, Write 0, EndTransmission False 0, RequestFrom 0x40 1,
        Available 1, Read 0xE5,
        BeginTransmission 0x40, Write 0, Write 0x75, EndTransmission True 0,
        BeginTransmission 0x40, Write 0xFE, Write 6, EndTransmission True 0,
        BeginTransmission 0x40, Write 0, Write 0xE5, EndTransmission True 0,
        Delay 5,
        BeginTransmission 0x40, Write 0, Write 0xE5, EndTransmission True 0]) \<and>
   ((0xE5 :: uint8_t) AND 0x7F) OR 0x10 = 0x75 \<and>
   bit (((0xE5 :: uint8_t) AND 0x7F) OR 0x10) 4 \<and>
   \<not> bit (((0xE5 :: uint8_t) AND 0x7F) OR 0x10) 7 \<and>
   bit (((0xE5 :: uint8_t) AND 0x7F) OR 0x10) 5 = bit (0xE5 :: uint8_t) 5"
proof -
  have r: "read8 (chip (steady_bus 0 1 0xE5)) (PCA9685_MODE1 datasheet_regs) (Some 0) [] =
     (True, Some 0xE5,
      [BeginTransmission 0x40, Write 0, EndTransmission False 0, RequestFrom 0x40 1,
       Available 1, Read 0xE5])"
    by (simp add: run_defs)
  have f: "setPWMFreq exact_fp datasheet_regs (chip (steady_bus 0 1 0xE5)) 1000 [] =
     Some (True,
       [BeginTransmission 0x40, Write 0, EndTransmission False 0, RequestFrom 0x40 1,
        Available 1, Read 0xE5,
        BeginTransmission 0x40, Write 0, Write 0x75, EndTransmission True 0,
        BeginTransmission 0x40, Write 0xFE, Write 6, EndTransmission True 0,
        BeginTransmission 0x40, Write 0, Write 0xE5, EndTransmission True 0,
        Delay 5,
        BeginTransmission 0x40, Write 0, Write 0xE5, EndTransmission True 0])"
    by (simp add: run_defs prescale_exact_1000)
  show ?thesis
    using sleep_write_value [OF r f] r f by simp
qed

text \<open>
  A chip that reports \<^verbatim>\<open>MODE1 = 0x10\<close> (asleep): \<^verbatim>\<open>setPWMFreq\<close> returns \<^verbatim>\<open>true\<close> and its
  last write to the mode register carries 0xB0, with the sleep bit set.
\<close>

theorem final_mode_counterexample:
  "setPWMFreq exact_fp datasheet_regs (chip (steady_bus 0 1 0x10)) 1000 [] =
     Some (True,
       [BeginTransmission 0x40, Write 0, EndTransmission False 0, RequestFrom 0x40 1,
        Available 1, Read 0x10,
        BeginTransmission 0x40, Write 0, Write 0x10, EndTransmission True 0,
        BeginTransmission 0x40, Write 0xFE, Write 6, EndTransmission True 0,
        BeginTransmission 0x40, Write 0, Write 0x10, EndTransmission True 0,
        Delay 5,
        BeginTransmission 0x40, Write 0, Write 0xB0, EndTransmission True 0]) \<and>
   bit (0xB0 :: uint8_t) 4"
  by (simp add: run_defs prescale_exact_1000)

text \<open>
  Claim C6, as the code has it. When \<^verbatim>\<open>setPWMFreq\<close> returns \<^verbatim>\<open>true\<close>, its last four calls
  are the write of the value read from the mode register, with 0xA0 set in it, to the mode
  register; the sleep bit of that value is the sleep bit that was read, so the chip is left
  running exactly when it reported itself running.
\<close>

theorem final_mode_write:
  assumes "read8 this (PCA9685_MODE1 regs) (Some 0) h = (ok0, Some old, h0)"
    and "setPWMFreq fp regs this freq h = Some (True, h')"
  shows "drop (length h' - 4) h' =
           [BeginTransmission (i2caddr this), Write (PCA9685_MODE1 regs), Write (old OR 0xA0),
            EndTransmission True 0] \<and>
         (bit (old OR 0xA0) 4 \<longleftrightarrow> bit old 4)"
proof -
  have "drop (length h' - 4) h' =
          [BeginTransmission (i2caddr this), Write (PCA9685_MODE1 regs), Write (old OR 0xA0),
           EndTransmission True 0]"
    using assms
    by (auto simp add: setPWMFreq_def write8_def Let_def split: option.splits if_splits)
  then show ?thesis
    by (simp add: bit_or_iff)
qed

theorem final_mode_write_witness:
  "read8 (chip (steady_bus 0 1 0x01)) (PCA9685_MODE1 datasheet_regs) (Some 0) [] =
     (True, Some 0x01,
      [BeginTransmission 0x40, Write 0, EndTransmission False 0, RequestFrom 0x40 1,
       Available 1, Read 0x01]) \<and>
   setPWMFreq exact_fp datasheet_regs (chip (steady_bus 0 1 0x01)) 1000 [] =
     Some (True,
       [BeginTransmission 0x40, Write 0, EndTransmission False 0, RequestFrom 0x40 1,
        Available 1, Read 0x01,
        BeginTransmission 0x40, Write 0, Write 0x11, EndTransmission True 0,
        BeginTransmission 0x40, Write 0xFE, Write 6, EndTransmission True 0,
        BeginTransmission 0x40, Write 0, Write 0x01, EndTransmission True 0,
        Delay 5,
        BeginTransmission 0x40, Write 0, Write 0xA1, EndTransmission True 0]) \<and>
   (0x01 :: uint8_t) OR 0xA0 = 0xA1 \<and> \<not> bit ((0x01 :: uint8_t) OR 0xA0) 4"
proof -
  have r: "read8 (chip (steady_bus 0 1 0x01)) (PCA9685_MODE1 datasheet_regs) (Some 0) [] =
     (True, Some 0x01,
      [BeginTransmission 0x40, Write 0, EndTransmission False 0, RequestFrom 0x40 1,
       Available 1, Read 0x01])"
    by (simp add: run_defs)
  have f: "setPWMFreq exact_fp datasheet_regs (chip (steady_bus 0 1 0x01)) 1000 [] =
     Some (True,
       [BeginTransmission 0x40, Write 0, EndTransmission False 0, RequestFrom 0x40 1,
        Available 1, Read 0x01,
        BeginTransmission 0x40, Write 0, Write 0x11, EndTransmission True 0,
        BeginTransmission 0x40, Write 0xFE, Write 6, EndTransmission True 0,
        BeginTransmission 0x40, Write 0, Write 0x01, EndTransmission True 0,
        Delay 5,
        BeginTransmission 0x40, Write 0, Write 0xA1, EndTransmission True 0])"
    by (simp add: run_defs prescale_exact_1000)
  show ?thesis
    using final_mode_write [OF r f] r f by simp
qed

text \<open>
  At 1000 Hz the prescale value is 6, not 7: \<open>25000000 / 4096 / 900\<close> is \<open>6.78\<dots>\<close>, and one is
  taken from it before the rounding.
\<close>

theorem setPWMFreq_1000_counterexample:
  "prescale exact_fp 1000 \<noteq> Some 7 \<and>
   setPWMFreq exact_fp datasheet_regs (chip (steady_bus 0 1 0)) 1000 [] =
     Some (True,
       [BeginTransmission 0x40, Write 0, EndTransmission False 0, RequestFrom 0x40 1,
        Available 1, Read 0,
        BeginTransmission 0x40, Write 0, Write 0x10, EndTransmission True 0,
        BeginTransmission 0x40, Write 0xFE, Write 6, EndTransmission True 0,
        BeginTransmission 0x40, Write 0, Write 0, EndTransmission True 0,
        Delay 5,
        BeginTransmission 0x40, Write 0, Write 0xA0, EndTransmission True 0])"
  by (simp add: run_defs prescale_exact_1000)

text \<open>
  Claim C5, as the code has it. \<^verbatim>\<open>setPWMFreq(1000)\<close> computes the prescale value 6, under
  every accurate rounding, and when every transmission is acknowledged and a byte is always
  available it makes exactly these calls, in this order: the read of \<^verbatim>\<open>MODE1\<close>, the write
  of \<^verbatim>\<open>MODE1\<close> with the sleep bit set, the write of 6 to \<^verbatim>\<open>PRESCALE\<close>, the write of the
  value read to \<^verbatim>\<open>MODE1\<close>, a delay of 5, and the write of the value read, with 0xA0 set in
  it, to \<^verbatim>\<open>MODE1\<close>.
\<close>

theorem setPWMFreq_1000:
  assumes "fp_accurate fp"
    and "\<forall>h. endTransmission (i2cBus this) h = 0"
    and "\<forall>h. available (i2cBus this) h \<noteq> 0"
  shows "prescale fp 1000 = Some 6 \<and>
    setPWMFreq fp regs this 1000 h =
      Some (True,
        (let a = i2caddr this; mode1 = PCA9685_MODE1 regs;
             h1 = h @ [BeginTransmission a, Write mode1, EndTransmission False 0,
                       RequestFrom a 1];
             n = available (i2cBus this) h1;
             r = read (i2cBus this) (h1 @ [Available n]);
             oldmode = word_of_int r
         in h1 @ [Available n, Read r,
              BeginTransmission a, Write mode1, Write ((oldmode AND 0x7F) OR 0x10),
              EndTransmission True 0,
              BeginTransmission a, Write (PCA9685_PRESCALE regs), Write 6,
              EndTransmission True 0,
              BeginTransmission a, Write mode1, Write oldmode, EndTransmission True 0,
              Delay 5,
              BeginTransmission a, Write mode1, Write (oldmode OR 0xA0),
              EndTransmission True 0]))"
  using assms(2,3)
  by (simp add: setPWMFreq_def read8_def write8_def Let_def prescale_1000 [OF assms(1)])

theorem setPWMFreq_1000_witness:
  "fp_accurate exact_fp \<and>
   (\<forall>h. endTransmission (i2cBus (chip (steady_bus 0 1 0x21))) h = 0) \<and>
   (\<forall>h. available (i2cBus (chip (steady_bus 0 1 0x21))) h \<noteq> 0) \<and>
   prescale exact_fp 1000 = Some 6 \<and>
   setPWMFreq exact_fp datasheet_regs (chip (steady_bus 0 1 0x21)) 1000 [] =
     Some (True,
       [BeginTransmission 0x40, Write 0, EndTransmission False 0, RequestFrom 0x40 1,
        Available 1, Read 0x21,
        BeginTransmission 0x40, Write 0, Write 0x31, EndTransmission True 0,
        BeginTransmission 0x40, Write 0xFE, Write 6, EndTransmission True 0,
        BeginTransmission 0x40, Write 0, Write 0x21, EndTransmission True 0,
        Delay 5,
        BeginTransmission 0x40, Write 0, Write 0xA1, EndTransmission True 0])"
proof -
  have e: "\<forall>h. endTransmission (i2cBus (chip (steady_bus 0 1 0x21))) h = 0"
    by (simp add: chip_def steady_bus_def)
  have a: "\<forall>h. available (i2cBus (chip (steady_bus 0 1 0x21))) h \<noteq> 0"
    by (simp add: chip_def steady_bus_def)
  show ?thesis
    using setPWMFreq_1000 [OF exact_fp_accurate e a, of datasheet_regs "[]"] exact_fp_accurate
    by (simp add: Let_def chip_def steady_bus_def datasheet_regs_def)
qed

section \<open>Failed transmissions\<close>

lemma fail_stop_reset: "fail_stop h (reset regs this h)"
  by (simp add: fail_stop_def reset_def write8_def Let_def)

lemma fail_stop_setPWM: "fail_stop h (setPWM regs this num on off h)"
  by (simp add: fail_stop_def setPWM_def Let_def)

lemma fail_stop_setPin: "fail_stop h (setPin regs this num val invert h)"
  by (simp add: setPin_def Let_def fail_stop_setPWM split: prod.splits)

lemma fail_stop_setPWMFreq: "setPWMFreq fp regs this freq h = Some r \<Longrightarrow> fail_stop h r"
  by (auto simp add: setPWMFreq_def read8_def write8_def fail_stop_def Let_def
      split: option.splits if_splits)

lemma fail_stop_begin: "begin' fp regs this h = Some r \<Longrightarrow> fail_stop h r"
  by (auto simp add: begin'_def reset_def setPWMFreq_def read8_def write8_def fail_stop_def
      Let_def split: option.splits if_splits)

text \<open>
  Claim C7. In every public operation (\<^verbatim>\<open>reset\<close>, \<^verbatim>\<open>setPWM\<close>, \<^verbatim>\<open>setPin\<close>, \<^verbatim>\<open>setPWMFreq\<close>,
  \<^verbatim>\<open>begin\<close>), a transmission that ends with a nonzero status is the last call the operation
  makes (no read, write or delay follows it), and the operation returns \<^verbatim>\<open>false\<close>; the
  same holds for a read that finds no byte available, so each of the five bus steps of
  \<^verbatim>\<open>setPWMFreq\<close> stops the remaining ones when it fails.
\<close>

theorem write_failure_stops:
  "fail_stop h (reset regs this h) \<and>
   fail_stop h (setPWM regs this num on off h) \<and>
   fail_stop h (setPin regs this num val invert h) \<and>
   (\<forall>r. setPWMFreq fp regs this freq h = Some r \<longrightarrow> fail_stop h r) \<and>
   (\<forall>r. begin' fp regs this h = Some r \<longrightarrow> fail_stop h r)"
  by (simp add: fail_stop_reset fail_stop_setPWM fail_stop_setPin fail_stop_setPWMFreq
      fail_stop_begin)

text \<open>
  A transport that acknowledges the read and the write that puts the chip to sleep, and not
  the write of the prescale value: \<^verbatim>\<open>setPWMFreq\<close> stops there.
\<close>

theorem write_failure_stops_witness:
  "setPWMFreq exact_fp datasheet_regs (chip (flaky_bus 10)) 1000 [] =
     Some (False,
       [BeginTransmission 0x40, Write 0, EndTransmission False 0, RequestFrom 0x40 1,
        Available 1, Read 0,
        BeginTransmission 0x40, Write 0, Write 0x10, EndTransmission True 0,
        BeginTransmission 0x40, Write 0xFE, Write 6, EndTransmission True 2]) \<and>
   list_ex failed
     [BeginTransmission 0x40, Write 0, EndTransmission False 0, RequestFrom 0x40 1,
      Available 1, Read 0,
      BeginTransmission 0x40, Write 0, Write 0x10, EndTransmission True 0,
      BeginTransmission 0x40, Write 0xFE, Write 6, EndTransmission True 2] \<and>
   fail_stop []
     (False,
      [BeginTransmission 0x40, Write 0, EndTransmission False 0, RequestFrom 0x40 1,
       Available 1, Read 0,
       BeginTransmission 0x40, Write 0, Write 0x10, EndTransmission True 0,
       BeginTransmission 0x40, Write 0xFE, Write 6, EndTransmission True 2])"
proof -
  have f: "setPWMFreq exact_fp datasheet_regs (chip (flaky_bus 10)) 1000 [] =
     Some (False,
       [BeginTransmission 0x40, Write 0, EndTransmission False 0, RequestFrom 0x40 1,
        Available 1, Read 0,
        BeginTransmission 0x40, Write 0, Write 0x10, EndTransmission True 0,
        BeginTransmission 0x40, Write 0xFE, Write 6, EndTransmission True 2])"
    by (simp add: run_defs prescale_exact_1000)
  show ?thesis
    using write_failure_stops [where h = "[]" and fp = exact_fp and regs = datasheet_regs
        and this = "chip (flaky_bus 10)" and freq = 1000] f
    by simp
qed

end
